theory Spec2Isabelle
  imports Complex_Main
begin

section \<open>Data model\<close>

text \<open>
  JavaScript values that are either absent, \<open>null\<close> or a string: the \<open>password\<close> of a
  join request is optional (\<open>undefined\<close> when left out), a \<open>password TEXT\<close> column read
  back from SQLite is \<open>null\<close> or a string. Strict (in)equality \<open>===\<close> / \<open>!==\<close> on such
  values is equality of this datatype: \<open>null !== undefined\<close>.
\<close>

datatype jsval = Undefined | Null | Str string

text \<open>
  A \<open>DrawingElement\<close>. The server reads only \<open>element.id\<close> and \<open>element.timestamp\<close>; the
  remaining fields (variant tag, geometry, style, owner) travel as one opaque payload.
\<close>

record element =
  element_id :: string
  timestamp :: int
  content :: string

record user =
  user_id :: string
  user_name :: string
  color :: string
  socketId :: jsval

record room =
  room_id :: string
  room_name :: string
  isPrivate :: bool
  password :: jsval
  permissions :: string
  createdAt :: int
  users :: "user list"

record CreateRoomData =
  data_name :: string
  data_isPrivate :: bool
  data_password :: jsval
  data_permissions :: string

subsection \<open>The tables of \<open>createTables\<close>\<close>

text \<open>
  Each table is the list of its rows in rowid order. \<open>rooms.id\<close>, \<open>users.id\<close>,
  \<open>whiteboard_elements.id\<close> and the pair \<open>(roomId, userId)\<close> of \<open>room_users\<close> are primary
  keys. A nullable \<open>TEXT\<close> column is a \<open>string option\<close> (\<open>None\<close> is SQL \<open>NULL\<close>).
\<close>

record rooms_row =
  r_id :: string
  r_name :: string
  r_isPrivate :: bool
  r_password :: "string option"
  r_permissions :: string
  r_createdAt :: int

record users_row =
  u_id :: string
  u_name :: string
  u_color :: string
  u_socketId :: "string option"
  u_createdAt :: int

record room_users_row =
  ru_roomId :: string
  ru_userId :: string
  ru_joinedAt :: int

text \<open>
  \<open>elementData\<close> holds \<open>JSON.stringify(element)\<close> and is read back with \<open>JSON.parse\<close>; the
  round trip of a plain data object is the identity, so the column holds the element.
\<close>

record whiteboard_elements_row =
  we_id :: string
  we_roomId :: string
  we_elementData :: element
  we_timestamp :: int

record tables =
  rooms :: "rooms_row list"
  users_tbl :: "users_row list"
  room_users :: "room_users_row list"
  whiteboard_elements :: "whiteboard_elements_row list"

datatype error = DatabaseNotInitialized | ConstraintFailed

section \<open>DatabaseManager\<close>

text \<open>
  The state of a \<open>DatabaseManager\<close> is its field \<open>db\<close>: \<open>None\<close> is \<open>null\<close> (before
  \<open>initialize\<close>), \<open>Some t\<close> an open database with tables \<open>t\<close>. Every method starts with
  \<open>if (!this.db) throw new Error('Database not initialized')\<close>. \<open>Date.now()\<close> and the
  generated identifiers are arguments.
\<close>

text \<open>\<open>CREATE TABLE IF NOT EXISTS\<close> on a fresh database file.\<close>

definition createTables :: tables where
  "createTables = \<lparr>rooms = [], users_tbl = [], room_users = [], whiteboard_elements = []\<rparr>"

text \<open>
  \<open>INSERT OR REPLACE\<close>: a row with the same primary key is deleted, then the new row is
  inserted (with a fresh, largest rowid).
\<close>

definition insert_or_replace :: "('r \<Rightarrow> 'k) \<Rightarrow> 'r \<Rightarrow> 'r list \<Rightarrow> 'r list" where
  "insert_or_replace key row rows = filter (\<lambda>r. key r \<noteq> key row) rows @ [row]"

text \<open>Binding a parameter: \<open>undefined\<close> and \<open>null\<close> are stored as \<open>NULL\<close>.\<close>

fun bind_text :: "jsval \<Rightarrow> string option" where
  "bind_text Undefined = None"
| "bind_text Null = None"
| "bind_text (Str s) = Some s"

fun column_text :: "string option \<Rightarrow> jsval" where
  "column_text None = Null"
| "column_text (Some s) = Str s"

text \<open>
  \<open>createRoom\<close> reads \<open>Date.now()\<close> once for the row it inserts (\<open>now\<close>) and once more for
  the object it returns (\<open>now'\<close>); \<open>roomId\<close> is the generated identifier.
\<close>

definition createRoom ::
  "tables option \<Rightarrow> string \<Rightarrow> int \<Rightarrow> int \<Rightarrow> CreateRoomData \<Rightarrow> error + (room \<times> tables)" where
  "createRoom db roomId now now' data =
     (case db of
        None \<Rightarrow> Inl DatabaseNotInitialized
      | Some t \<Rightarrow>
          if roomId \<in> set (map r_id (rooms t)) then Inl ConstraintFailed
          else Inr (\<lparr>room_id = roomId, room_name = data_name data,
                      isPrivate = data_isPrivate data, password = data_password data,
                      permissions = data_permissions data, createdAt = now', users = []\<rparr>,
                    t\<lparr>rooms := rooms t @
                        [\<lparr>r_id = roomId, r_name = data_name data,
                          r_isPrivate = data_isPrivate data,
                          r_password = bind_text (data_password data),
                          r_permissions = data_permissions data, r_createdAt = now\<rparr>]\<rparr>))"

text \<open>
  The join \<open>SELECT u.* FROM users u JOIN room_users ru ON u.id = ru.userId WHERE
  ru.roomId = ?\<close>, used by \<open>getRoom\<close> and \<open>getRoomUsers\<close>, mapped to user objects. SQL does
  not fix the order of the result; the membership rows are taken in table order here.
\<close>

definition user_of_row :: "users_row \<Rightarrow> user" where
  "user_of_row u = \<lparr>user_id = u_id u, user_name = u_name u, color = u_color u,
                    socketId = column_text (u_socketId u)\<rparr>"

definition select_room_users :: "tables \<Rightarrow> string \<Rightarrow> user list" where
  "select_room_users t roomId =
     concat (map (\<lambda>ru. map user_of_row (filter (\<lambda>u. u_id u = ru_userId ru) (users_tbl t)))
                 (filter (\<lambda>ru. ru_roomId ru = roomId) (room_users t)))"

definition getRoom :: "tables option \<Rightarrow> string \<Rightarrow> error + room option" where
  "getRoom db roomId =
     (case db of
        None \<Rightarrow> Inl DatabaseNotInitialized
      | Some t \<Rightarrow>
          (case filter (\<lambda>r. r_id r = roomId) (rooms t) of
             [] \<Rightarrow> Inr None
           | r # _ \<Rightarrow>
               Inr (Some \<lparr>room_id = r_id r, room_name = r_name r, isPrivate = r_isPrivate r,
                          password = column_text (r_password r),
                          permissions = r_permissions r, createdAt = r_createdAt r,
                          users = select_room_users t roomId\<rparr>)))"

definition getRoomUsers :: "tables option \<Rightarrow> string \<Rightarrow> error + user list" where
  "getRoomUsers db roomId =
     (case db of
        None \<Rightarrow> Inl DatabaseNotInitialized
      | Some t \<Rightarrow> Inr (select_room_users t roomId))"

text \<open>The colour palette of \<open>createUser\<close>; \<open>pick\<close> stands for the random index.\<close>

definition colors :: "string list" where
  "colors = [''#3B82F6'', ''#8B5CF6'', ''#10B981'', ''#F59E0B'', ''#EF4444'', ''#6B7280'']"

definition createUser :: "tables option \<Rightarrow> string \<Rightarrow> nat \<Rightarrow> int \<Rightarrow> string \<Rightarrow> string \<Rightarrow> error + (user \<times> tables)" where
  "createUser db userId pick now sid name =
     (case db of
        None \<Rightarrow> Inl DatabaseNotInitialized
      | Some t \<Rightarrow>
          if userId \<in> set (map u_id (users_tbl t)) then Inl ConstraintFailed
          else Inr (\<lparr>user_id = userId, user_name = name,
                      color = colors ! (pick mod length colors), socketId = Str sid\<rparr>,
                    t\<lparr>users_tbl := users_tbl t @
                        [\<lparr>u_id = userId, u_name = name,
                          u_color = colors ! (pick mod length colors),
                          u_socketId = Some sid, u_createdAt = now\<rparr>]\<rparr>))"

definition getUser :: "tables option \<Rightarrow> string \<Rightarrow> error + user option" where
  "getUser db userId =
     (case db of
        None \<Rightarrow> Inl DatabaseNotInitialized
      | Some t \<Rightarrow>
          (case filter (\<lambda>u. u_id u = userId) (users_tbl t) of
             [] \<Rightarrow> Inr None
           | u # _ \<Rightarrow> Inr (Some (user_of_row u))))"

definition updateUserSocketId :: "tables option \<Rightarrow> string \<Rightarrow> string \<Rightarrow> error + tables" where
  "updateUserSocketId db userId sid =
     (case db of
        None \<Rightarrow> Inl DatabaseNotInitialized
      | Some t \<Rightarrow>
          Inr (t\<lparr>users_tbl :=
                   map (\<lambda>u. if u_id u = userId then u\<lparr>u_socketId := Some sid\<rparr> else u)
                     (users_tbl t)\<rparr>))"

definition addUserToRoom :: "tables option \<Rightarrow> int \<Rightarrow> string \<Rightarrow> string \<Rightarrow> error + tables" where
  "addUserToRoom db now roomId userId =
     (case db of
        None \<Rightarrow> Inl DatabaseNotInitialized
      | Some t \<Rightarrow>
          Inr (t\<lparr>room_users :=
                   insert_or_replace (\<lambda>r. (ru_roomId r, ru_userId r))
                     \<lparr>ru_roomId = roomId, ru_userId = userId, ru_joinedAt = now\<rparr>
                     (room_users t)\<rparr>))"

definition removeUserFromRoom :: "tables option \<Rightarrow> string \<Rightarrow> string \<Rightarrow> error + tables" where
  "removeUserFromRoom db roomId userId =
     (case db of
        None \<Rightarrow> Inl DatabaseNotInitialized
      | Some t \<Rightarrow>
          Inr (t\<lparr>room_users :=
                   filter (\<lambda>r. \<not> (ru_roomId r = roomId \<and> ru_userId r = userId))
                     (room_users t)\<rparr>))"

definition saveElement :: "tables option \<Rightarrow> string \<Rightarrow> element \<Rightarrow> error + tables" where
  "saveElement db roomId el =
     (case db of
        None \<Rightarrow> Inl DatabaseNotInitialized
      | Some t \<Rightarrow>
          Inr (t\<lparr>whiteboard_elements :=
                   insert_or_replace we_id
                     \<lparr>we_id = element_id el, we_roomId = roomId, we_elementData = el,
                      we_timestamp = timestamp el\<rparr>
                     (whiteboard_elements t)\<rparr>))"

text \<open>
  \<open>SELECT elementData FROM whiteboard_elements WHERE roomId = ? ORDER BY timestamp\<close>. SQL
  leaves the order of rows with equal timestamps open; \<open>sort_key\<close> keeps them in table
  order. No statement below depends on that choice.
\<close>

definition getRoomElements :: "tables option \<Rightarrow> string \<Rightarrow> error + element list" where
  "getRoomElements db roomId =
     (case db of
        None \<Rightarrow> Inl DatabaseNotInitialized
      | Some t \<Rightarrow>
          Inr (map we_elementData
                 (sort_key we_timestamp
                    (filter (\<lambda>r. we_roomId r = roomId) (whiteboard_elements t)))))"

definition clearRoomElements :: "tables option \<Rightarrow> string \<Rightarrow> error + tables" where
  "clearRoomElements db roomId =
     (case db of
        None \<Rightarrow> Inl DatabaseNotInitialized
      | Some t \<Rightarrow>
          Inr (t\<lparr>whiteboard_elements :=
                   filter (\<lambda>r. we_roomId r \<noteq> roomId) (whiteboard_elements t)\<rparr>))"

subsection \<open>Sequences of store operations\<close>

text \<open>
  The writes the server performs on the store, as data, so that a history of writes can be
  replayed against an open database.
\<close>

datatype store_op =
    Save string element
  | Clear string
  | AddUser int string string
  | RemoveUser string string

fun apply_op :: "store_op \<Rightarrow> tables option \<Rightarrow> error + tables" where
  "apply_op (Save roomId el) db = saveElement db roomId el"
| "apply_op (Clear roomId) db = clearRoomElements db roomId"
| "apply_op (AddUser now roomId userId) db = addUserToRoom db now roomId userId"
| "apply_op (RemoveUser roomId userId) db = removeUserFromRoom db roomId userId"

fun run_ops :: "store_op list \<Rightarrow> tables \<Rightarrow> error + tables" where
  "run_ops [] t = Inr t"
| "run_ops (op # ops) t =
     (case apply_op op (Some t) of Inl e \<Rightarrow> Inl e | Inr t' \<Rightarrow> run_ops ops t')"

text \<open>The snapshot of a room read after a history of writes.\<close>

definition snapshot_after :: "store_op list \<Rightarrow> tables \<Rightarrow> string \<Rightarrow> error + element list" where
  "snapshot_after ops t roomId =
     (case run_ops ops t of Inl e \<Rightarrow> Inl e | Inr t' \<Rightarrow> getRoomElements (Some t') roomId)"

text \<open>
  Every row of \<open>whiteboard_elements\<close> written by \<open>saveElement\<close> carries the id and the
  timestamp of the element it stores.
\<close>

definition rows_consistent :: "tables \<Rightarrow> bool" where
  "rows_consistent t =
     list_all (\<lambda>r. we_id r = element_id (we_elementData r) \<and>
                    we_timestamp r = timestamp (we_elementData r))
       (whiteboard_elements t)"

text \<open>The rows of one room, in table order.\<close>

definition room_rows :: "string \<Rightarrow> tables \<Rightarrow> whiteboard_elements_row list" where
  "room_rows R t = filter (\<lambda>r. we_roomId r = R) (whiteboard_elements t)"

text \<open>The membership relation stored in \<open>room_users\<close>: the set of (roomId, userId) pairs.\<close>

definition members :: "tables \<Rightarrow> (string \<times> string) set" where
  "members t = set (map (\<lambda>r. (ru_roomId r, ru_userId r)) (room_users t))"

subsection \<open>The snapshot as the specification words it\<close>

text \<open>
  The elements committed to a room since its last clear, each in the version written
  last, in the order of their latest write.
\<close>

fun commit_ops :: "string \<Rightarrow> store_op list \<Rightarrow> element list \<Rightarrow> element list" where
  "commit_ops R [] acc = acc"
| "commit_ops R (Save roomId el # ops) acc =
     commit_ops R ops
       (if roomId = R then filter (\<lambda>x. element_id x \<noteq> element_id el) acc @ [el] else acc)"
| "commit_ops R (Clear roomId # ops) acc = commit_ops R ops (if roomId = R then [] else acc)"
| "commit_ops R (_ # ops) acc = commit_ops R ops acc"

definition committed_since_clear :: "string \<Rightarrow> store_op list \<Rightarrow> element list" where
  "committed_since_clear R ops = commit_ops R ops []"

text \<open>
  The same elements paired with the timestamp of their first commit since the last clear:
  an update replaces the element and keeps the creation time.
\<close>

fun created_ops :: "string \<Rightarrow> store_op list \<Rightarrow> (int \<times> element) list \<Rightarrow> (int \<times> element) list" where
  "created_ops R [] acc = acc"
| "created_ops R (Save roomId el # ops) acc =
     created_ops R ops
       (if roomId \<noteq> R then acc
        else if element_id el \<in> set (map (element_id \<circ> snd) acc)
        then map (\<lambda>(c, x). if element_id x = element_id el then (c, el) else (c, x)) acc
        else acc @ [(timestamp el, el)])"
| "created_ops R (Clear roomId # ops) acc = created_ops R ops (if roomId = R then [] else acc)"
| "created_ops R (_ # ops) acc = created_ops R ops acc"

text \<open>The snapshot of the specification: sorted by original creation timestamp.\<close>

definition snapshot_by_creation :: "string \<Rightarrow> store_op list \<Rightarrow> element list" where
  "snapshot_by_creation R ops = map snd (sort_key fst (created_ops R ops []))"

text \<open>The element ids written to room \<open>R\<close>, and those written to any other room.\<close>

fun ids_in_room :: "string \<Rightarrow> store_op list \<Rightarrow> string list" where
  "ids_in_room R [] = []"
| "ids_in_room R (Save roomId el # ops) =
     (if roomId = R then element_id el # ids_in_room R ops else ids_in_room R ops)"
| "ids_in_room R (_ # ops) = ids_in_room R ops"

fun ids_elsewhere :: "string \<Rightarrow> store_op list \<Rightarrow> string list" where
  "ids_elsewhere R [] = []"
| "ids_elsewhere R (Save roomId el # ops) =
     (if roomId \<noteq> R then element_id el # ids_elsewhere R ops else ids_elsewhere R ops)"
| "ids_elsewhere R (_ # ops) = ids_elsewhere R ops"

section \<open>The managers\<close>

text \<open>
  \<open>RoomManager\<close>, \<open>WhiteboardManager\<close> and \<open>AuthManager\<close> (\<open>server/managers\<close>) are
  constructed over the \<open>DatabaseManager\<close> by the server, which calls them by the names
  below.
\<close>

text \<open>Modelled from the spec: \<open>RoomManager.getRoom\<close>, "getRoom(id) -> Room | not-found", a
  lookup in the persisted rooms.\<close>

definition RoomManager_getRoom :: "tables option \<Rightarrow> string \<Rightarrow> error + room option" where
  "RoomManager_getRoom db roomId = getRoom db roomId"

text \<open>Modelled from the spec: \<open>RoomManager.addUserToRoom\<close>, the membership add of the
  registry, persisted as a (roomId, userId) pair.\<close>

definition RoomManager_addUserToRoom :: "tables option \<Rightarrow> int \<Rightarrow> string \<Rightarrow> user \<Rightarrow> error + tables" where
  "RoomManager_addUserToRoom db now roomId u = addUserToRoom db now roomId (user_id u)"

text \<open>Modelled from the spec: \<open>RoomManager.removeUserFromRoom\<close>, the membership remove of
  the registry.\<close>

definition RoomManager_removeUserFromRoom :: "tables option \<Rightarrow> string \<Rightarrow> string \<Rightarrow> error + tables" where
  "RoomManager_removeUserFromRoom db roomId userId = removeUserFromRoom db roomId userId"

text \<open>Modelled from the spec: \<open>RoomManager.getRoomUsers\<close>, "listUsers (ordered)", the users
  currently joined to the room.\<close>

definition RoomManager_getRoomUsers :: "tables option \<Rightarrow> string \<Rightarrow> error + user list" where
  "RoomManager_getRoomUsers db roomId = getRoomUsers db roomId"

text \<open>Modelled from the spec: \<open>WhiteboardManager.addElement\<close>, "append/update(element):
  durable upsert keyed by element id, overwriting any prior version".\<close>

definition WhiteboardManager_addElement :: "tables option \<Rightarrow> string \<Rightarrow> element \<Rightarrow> error + tables" where
  "WhiteboardManager_addElement db roomId el = saveElement db roomId el"

text \<open>Modelled from the spec: \<open>WhiteboardManager.updateElement\<close>, the same durable upsert
  ("implement as plain overwrite keyed by element id").\<close>

definition WhiteboardManager_updateElement :: "tables option \<Rightarrow> string \<Rightarrow> element \<Rightarrow> error + tables" where
  "WhiteboardManager_updateElement db roomId el = saveElement db roomId el"

text \<open>Modelled from the spec: \<open>WhiteboardManager.getRoomElements\<close>, "list(roomId) -> ordered
  sequence", the snapshot read of the store.\<close>

definition WhiteboardManager_getRoomElements :: "tables option \<Rightarrow> string \<Rightarrow> error + element list" where
  "WhiteboardManager_getRoomElements db roomId = getRoomElements db roomId"

text \<open>Modelled from the spec: \<open>WhiteboardManager.clearRoom\<close>, "clear(roomId) deletes every
  element of that room".\<close>

definition WhiteboardManager_clearRoom :: "tables option \<Rightarrow> string \<Rightarrow> error + tables" where
  "WhiteboardManager_clearRoom db roomId = clearRoomElements db roomId"

text \<open>
  What a handler cannot compute from the state: the clock, the identifier generated for a
  new user and the random index into the palette.
\<close>

record env =
  env_now :: int
  env_userId :: string
  env_pick :: nat

text \<open>Modelled from the spec: \<open>AuthManager.createOrGetUser\<close>. "A User is created on first
  successful join": unique id, display name, a colour picked from the fixed palette, the
  current connection identifier. The manager is constructed without the database, so
  its users are kept in memory, one per connection.\<close>

definition AuthManager_createOrGetUser ::
  "(string \<times> user) list \<Rightarrow> env \<Rightarrow> string \<Rightarrow> string \<Rightarrow> user \<times> (string \<times> user) list" where
  "AuthManager_createOrGetUser auth env sid name =
     (case map_of auth sid of
        Some u \<Rightarrow> (u, auth)
      | None \<Rightarrow>
          (let u = \<lparr>user_id = env_userId env, user_name = name,
                    color = colors ! (env_pick env mod length colors), socketId = Str sid\<rparr>
           in (u, auth @ [(sid, u)])))"

section \<open>The socket server\<close>

text \<open>
  \<open>socket.data\<close> of a connection: \<open>roomId\<close> and \<open>userId\<close>, both \<open>undefined\<close> (\<open>None\<close>)
  until a join stores them.
\<close>

record socket_data =
  sd_roomId :: "string option"
  sd_userId :: "string option"

text \<open>
  The state of the server: the database handle of the \<open>DatabaseManager\<close>, the users of the
  \<open>AuthManager\<close>, \<open>socket.data\<close> of every connection (by socket id), and the rooms of
  socket.io as pairs (room, socket id).
\<close>

record server =
  dbManager :: "tables option"
  authManager :: "(string \<times> user) list"
  sockets :: "string \<Rightarrow> socket_data"
  adapter :: "(string \<times> string) list"

type_synonym position = "real \<times> real"

text \<open>Server-to-client events with their payloads.\<close>

datatype event =
    UserJoined user
  | UserLeft string
  | RoomUsersUpdated "user list"
  | DrawingStart element string
  | DrawingUpdate element string
  | DrawingEnd element string
  | TextAdded element string
  | CanvasCleared
  | CursorMoved string position

text \<open>The argument of the \<open>join-room\<close> callback.\<close>

datatype ack =
    JoinSuccess room user "element list"
  | JoinFailure string

text \<open>
  What a handler does that is visible outside its state, in the order of execution: an
  awaited write to the store that has completed, the acknowledgment passed to the callback
  of one connection, an event emitted to a list of recipient connections.
\<close>

datatype effect =
    Persist store_op
  | Callback string ack
  | Emit "string list" event

text \<open>socket.io: \<open>socket.join\<close>, \<open>socket.leave\<close>, and the recipients of
  \<open>socket.to(room).emit\<close> (every socket in the room except the sender) and of
  \<open>io.to(room).emit\<close> (every socket in the room).\<close>

definition socket_join :: "(string \<times> string) list \<Rightarrow> string \<Rightarrow> string \<Rightarrow> (string \<times> string) list" where
  "socket_join a roomId sid = (if (roomId, sid) \<in> set a then a else a @ [(roomId, sid)])"

definition socket_leave :: "(string \<times> string) list \<Rightarrow> string \<Rightarrow> string \<Rightarrow> (string \<times> string) list" where
  "socket_leave a roomId sid = filter (\<lambda>p. p \<noteq> (roomId, sid)) a"

definition socket_to :: "(string \<times> string) list \<Rightarrow> string \<Rightarrow> string \<Rightarrow> string list" where
  "socket_to a roomId sid = map snd (filter (\<lambda>p. fst p = roomId \<and> snd p \<noteq> sid) a)"

definition io_to :: "(string \<times> string) list \<Rightarrow> string \<Rightarrow> string list" where
  "io_to a roomId = map snd (filter (\<lambda>p. fst p = roomId) a)"

text \<open>\<open>!x\<close> for an optional string: true for \<open>undefined\<close> and for the empty string.\<close>

fun falsy :: "string option \<Rightarrow> bool" where
  "falsy None = True"
| "falsy (Some v) = (v = [])"

record join_data =
  join_roomId :: string
  join_password :: jsval
  join_userName :: string

subsection \<open>The handlers of a connection\<close>

text \<open>
  Each handler takes the id of the socket whose inbound event it serves and returns the
  new state with the effects in the order they happen. A handler is a sequence of awaited
  calls; an exception leaves it at that point (in \<open>join-room\<close> and \<open>handleUserLeave\<close> it is
  caught, elsewhere the handler just ends).
\<close>

definition join_room :: "env \<Rightarrow> string \<Rightarrow> join_data \<Rightarrow> server \<Rightarrow> server \<times> effect list" where
  "join_room env sid data s =
     (let roomId = join_roomId data;
          failed = Callback sid (JoinFailure ''Failed to join room'')
      in case RoomManager_getRoom (dbManager s) roomId of
           Inl _ \<Rightarrow> (s, [failed])
         | Inr None \<Rightarrow> (s, [Callback sid (JoinFailure ''Room not found'')])
         | Inr (Some room) \<Rightarrow>
             if isPrivate room \<and> password room \<noteq> join_password data
             then (s, [Callback sid (JoinFailure ''Invalid password'')])
             else
               (case AuthManager_createOrGetUser (authManager s) env sid (join_userName data) of
                  (u, auth) \<Rightarrow>
                    (let s1 = s\<lparr>authManager := auth,
                                 adapter := socket_join (adapter s) roomId sid\<rparr>
                     in case RoomManager_addUserToRoom (dbManager s1) (env_now env) roomId u of
                          Inl _ \<Rightarrow> (s1, [failed])
                        | Inr t \<Rightarrow>
                            (let s2 = s1\<lparr>dbManager := Some t,
                                          sockets := (sockets s1)
                                            (sid := \<lparr>sd_roomId = Some roomId,
                                                     sd_userId = Some (user_id u)\<rparr>)\<rparr>;
                                 stored = [Persist (AddUser (env_now env) roomId (user_id u))]
                             in case WhiteboardManager_getRoomElements (dbManager s2) roomId of
                                  Inl _ \<Rightarrow> (s2, stored @ [failed])
                                | Inr elements \<Rightarrow>
                                    (let joined = stored @
                                           [Callback sid (JoinSuccess room u elements),
                                            Emit (socket_to (adapter s2) roomId sid) (UserJoined u)]
                                     in case RoomManager_getRoomUsers (dbManager s2) roomId of
                                          Inl _ \<Rightarrow> (s2, joined @ [failed])
                                        | Inr roomUsers \<Rightarrow>
                                            (s2, joined @
                                               [Emit (io_to (adapter s2) roomId)
                                                  (RoomUsersUpdated roomUsers)]))))))"

definition handleUserLeave :: "string \<Rightarrow> string \<Rightarrow> string \<Rightarrow> server \<Rightarrow> server \<times> effect list" where
  "handleUserLeave sid roomId userId s =
     (case RoomManager_removeUserFromRoom (dbManager s) roomId userId of
        Inl _ \<Rightarrow> (s, [])
      | Inr t \<Rightarrow>
          (let s1 = s\<lparr>dbManager := Some t, adapter := socket_leave (adapter s) roomId sid\<rparr>;
               left = [Persist (RemoveUser roomId userId),
                       Emit (socket_to (adapter s1) roomId sid) (UserLeft userId)]
           in case RoomManager_getRoomUsers (dbManager s1) roomId of
                Inl _ \<Rightarrow> (s1, left)
              | Inr roomUsers \<Rightarrow>
                  (s1, left @
                     [Emit (socket_to (adapter s1) roomId sid) (RoomUsersUpdated roomUsers)])))"

definition leave_room :: "string \<Rightarrow> server \<Rightarrow> server \<times> effect list" where
  "leave_room sid s =
     (let roomId = sd_roomId (sockets s sid); userId = sd_userId (sockets s sid)
      in if \<not> falsy roomId \<and> \<not> falsy userId
         then handleUserLeave sid (the roomId) (the userId) s
         else (s, []))"

definition drawing_start :: "string \<Rightarrow> element \<Rightarrow> server \<Rightarrow> server \<times> effect list" where
  "drawing_start sid el s =
     (let roomId = sd_roomId (sockets s sid); userId = sd_userId (sockets s sid)
      in if falsy roomId \<or> falsy userId then (s, [])
         else (case WhiteboardManager_addElement (dbManager s) (the roomId) el of
                 Inl _ \<Rightarrow> (s, [])
               | Inr t \<Rightarrow>
                   (s\<lparr>dbManager := Some t\<rparr>,
                    [Persist (Save (the roomId) el),
                     Emit (socket_to (adapter s) (the roomId) sid)
                       (DrawingStart el (the userId))])))"

definition drawing_update :: "string \<Rightarrow> element \<Rightarrow> server \<Rightarrow> server \<times> effect list" where
  "drawing_update sid el s =
     (let roomId = sd_roomId (sockets s sid); userId = sd_userId (sockets s sid)
      in if falsy roomId \<or> falsy userId then (s, [])
         else (case WhiteboardManager_updateElement (dbManager s) (the roomId) el of
                 Inl _ \<Rightarrow> (s, [])
               | Inr t \<Rightarrow>
                   (s\<lparr>dbManager := Some t\<rparr>,
                    [Persist (Save (the roomId) el),
                     Emit (socket_to (adapter s) (the roomId) sid)
                       (DrawingUpdate el (the userId))])))"

definition drawing_end :: "string \<Rightarrow> element \<Rightarrow> server \<Rightarrow> server \<times> effect list" where
  "drawing_end sid el s =
     (let roomId = sd_roomId (sockets s sid); userId = sd_userId (sockets s sid)
      in if falsy roomId \<or> falsy userId then (s, [])
         else (case WhiteboardManager_updateElement (dbManager s) (the roomId) el of
                 Inl _ \<Rightarrow> (s, [])
               | Inr t \<Rightarrow>
                   (s\<lparr>dbManager := Some t\<rparr>,
                    [Persist (Save (the roomId) el),
                     Emit (socket_to (adapter s) (the roomId) sid)
                       (DrawingEnd el (the userId))])))"

definition text_added :: "string \<Rightarrow> element \<Rightarrow> server \<Rightarrow> server \<times> effect list" where
  "text_added sid el s =
     (let roomId = sd_roomId (sockets s sid); userId = sd_userId (sockets s sid)
      in if falsy roomId \<or> falsy userId then (s, [])
         else (case WhiteboardManager_addElement (dbManager s) (the roomId) el of
                 Inl _ \<Rightarrow> (s, [])
               | Inr t \<Rightarrow>
                   (s\<lparr>dbManager := Some t\<rparr>,
                    [Persist (Save (the roomId) el),
                     Emit (socket_to (adapter s) (the roomId) sid)
                       (TextAdded el (the userId))])))"

text \<open>\<open>clear-canvas\<close> looks at \<open>roomId\<close> only.\<close>

definition clear_canvas :: "string \<Rightarrow> server \<Rightarrow> server \<times> effect list" where
  "clear_canvas sid s =
     (let roomId = sd_roomId (sockets s sid)
      in if falsy roomId then (s, [])
         else (case WhiteboardManager_clearRoom (dbManager s) (the roomId) of
                 Inl _ \<Rightarrow> (s, [])
               | Inr t \<Rightarrow>
                   (s\<lparr>dbManager := Some t\<rparr>,
                    [Persist (Clear (the roomId)),
                     Emit (socket_to (adapter s) (the roomId) sid) CanvasCleared])))"

definition cursor_move :: "string \<Rightarrow> position \<Rightarrow> server \<Rightarrow> server \<times> effect list" where
  "cursor_move sid pos s =
     (let roomId = sd_roomId (sockets s sid); userId = sd_userId (sockets s sid)
      in if falsy roomId \<or> falsy userId then (s, [])
         else (s, [Emit (socket_to (adapter s) (the roomId) sid)
                     (CursorMoved (the userId) pos)]))"

text \<open>socket.io takes a closing socket out of all its rooms before the \<open>disconnect\<close>
  listeners run.\<close>

definition disconnect :: "string \<Rightarrow> server \<Rightarrow> server \<times> effect list" where
  "disconnect sid s =
     (let s0 = s\<lparr>adapter := filter (\<lambda>p. snd p \<noteq> sid) (adapter s)\<rparr>;
          roomId = sd_roomId (sockets s0 sid); userId = sd_userId (sockets s0 sid)
      in if \<not> falsy roomId \<and> \<not> falsy userId
         then handleUserLeave sid (the roomId) (the userId) s0
         else (s0, []))"

text \<open>The client-to-server events and the handler registered for each.\<close>

datatype client_event =
    On_join_room join_data
  | On_leave_room
  | On_drawing_start element
  | On_drawing_update element
  | On_drawing_end element
  | On_text_added element
  | On_clear_canvas
  | On_cursor_move position
  | On_disconnect

fun handle :: "env \<Rightarrow> string \<Rightarrow> client_event \<Rightarrow> server \<Rightarrow> server \<times> effect list" where
  "handle env sid (On_join_room data) s = join_room env sid data s"
| "handle env sid On_leave_room s = leave_room sid s"
| "handle env sid (On_drawing_start el) s = drawing_start sid el s"
| "handle env sid (On_drawing_update el) s = drawing_update sid el s"
| "handle env sid (On_drawing_end el) s = drawing_end sid el s"
| "handle env sid (On_text_added el) s = text_added sid el s"
| "handle env sid On_clear_canvas s = clear_canvas sid s"
| "handle env sid (On_cursor_move pos) s = cursor_move sid pos s"
| "handle env sid On_disconnect s = disconnect sid s"

text \<open>A join has succeeded when the callback of the connection received \<open>success: true\<close>.\<close>

fun is_join_success :: "string \<Rightarrow> effect \<Rightarrow> bool" where
  "is_join_success sid (Callback c (JoinSuccess _ _ _)) = (c = sid)"
| "is_join_success sid _ = False"

definition join_succeeds :: "string \<Rightarrow> server \<times> effect list \<Rightarrow> bool" where
  "join_succeeds sid result = list_ex (is_join_success sid) (snd result)"

section \<open>A small deployment\<close>

text \<open>
  A database with a public room \<open>room-1\<close> and a private room \<open>room-2\<close>, one element in
  each, and a server on it: the connections \<open>B\<close> and \<open>C\<close> have joined \<open>room-1\<close>, every
  other connection has not joined.
\<close>

definition example_tables :: tables where
  "example_tables =
     \<lparr>rooms =
        [\<lparr>r_id = ''room-1'', r_name = ''Board'', r_isPrivate = False, r_password = None,
          r_permissions = ''edit'', r_createdAt = 1\<rparr>,
         \<lparr>r_id = ''room-2'', r_name = ''Lab'', r_isPrivate = True, r_password = Some ''pw'',
          r_permissions = ''edit'', r_createdAt = 2\<rparr>],
      users_tbl = [],
      room_users =
        [\<lparr>ru_roomId = ''room-1'', ru_userId = ''user-2'', ru_joinedAt = 3\<rparr>,
         \<lparr>ru_roomId = ''room-1'', ru_userId = ''user-3'', ru_joinedAt = 4\<rparr>],
      whiteboard_elements =
        [\<lparr>we_id = ''a'', we_roomId = ''room-1'',
          we_elementData = \<lparr>element_id = ''a'', timestamp = 7, content = ''line''\<rparr>,
          we_timestamp = 7\<rparr>,
         \<lparr>we_id = ''k'', we_roomId = ''room-2'',
          we_elementData = \<lparr>element_id = ''k'', timestamp = 8, content = ''note''\<rparr>,
          we_timestamp = 8\<rparr>]\<rparr>"

definition example_server :: server where
  "example_server =
     \<lparr>dbManager = Some example_tables,
      authManager =
        [(''B'', \<lparr>user_id = ''user-2'', user_name = ''Bo'', color = ''#3B82F6'',
                  socketId = Str ''B''\<rparr>),
         (''C'', \<lparr>user_id = ''user-3'', user_name = ''Cy'', color = ''#10B981'',
                  socketId = Str ''C''\<rparr>)],
      sockets =
        (\<lambda>sid. if sid = ''B'' then \<lparr>sd_roomId = Some ''room-1'', sd_userId = Some ''user-2''\<rparr>
               else if sid = ''C'' then \<lparr>sd_roomId = Some ''room-1'', sd_userId = Some ''user-3''\<rparr>
               else \<lparr>sd_roomId = None, sd_userId = None\<rparr>),
      adapter = [(''room-1'', ''B''), (''room-1'', ''C'')]\<rparr>"

definition example_env :: env where
  "example_env = \<lparr>env_now = 9, env_userId = ''user-1'', env_pick = 0\<rparr>"

section \<open>Facts about the store\<close>

text \<open>Collections of defining equations, for evaluating the handlers on concrete states.\<close>

lemmas store_defs =
  saveElement_def clearRoomElements_def addUserToRoom_def removeUserFromRoom_def
  getRoomElements_def getRoomUsers_def getRoom_def insert_or_replace_def select_room_users_def

lemmas manager_defs =
  RoomManager_getRoom_def RoomManager_addUserToRoom_def RoomManager_removeUserFromRoom_def
  RoomManager_getRoomUsers_def WhiteboardManager_addElement_def
  WhiteboardManager_updateElement_def WhiteboardManager_getRoomElements_def
  WhiteboardManager_clearRoom_def

lemmas handler_defs =
  leave_room_def drawing_start_def drawing_update_def drawing_end_def text_added_def
  clear_canvas_def cursor_move_def disconnect_def

lemmas example_defs = example_server_def example_tables_def example_env_def

text \<open>On an open database no operation fails.\<close>

lemma apply_op_open: "\<exists>t'. apply_op op (Some t) = Inr t'"
  by (cases op) (simp_all add: saveElement_def clearRoomElements_def addUserToRoom_def removeUserFromRoom_def)

lemma run_ops_open: "\<exists>t'. run_ops ops t = Inr t'"
proof (induction ops arbitrary: t)
  case Nil
  then show ?case by simp
next
  case (Cons op ops)
  obtain t1 where "apply_op op (Some t) = Inr t1" using apply_op_open by blast
  with Cons.IH [of t1] show ?case by simp
qed

text \<open>The element rows after one operation.\<close>

lemma rows_apply_op:
  "apply_op op (Some t) = Inr t' \<Longrightarrow>
   whiteboard_elements t' =
     (case op of
        Save roomId el \<Rightarrow>
          filter (\<lambda>r. we_id r \<noteq> element_id el) (whiteboard_elements t) @
            [\<lparr>we_id = element_id el, we_roomId = roomId, we_elementData = el,
              we_timestamp = timestamp el\<rparr>]
      | Clear roomId \<Rightarrow> filter (\<lambda>r. we_roomId r \<noteq> roomId) (whiteboard_elements t)
      | _ \<Rightarrow> whiteboard_elements t)"
  by (cases op)
     (auto simp: saveElement_def clearRoomElements_def addUserToRoom_def
        removeUserFromRoom_def insert_or_replace_def)

text \<open>
  Rows written by \<open>saveElement\<close> stay consistent with the elements they store, and the
  primary key stays unique.
\<close>

lemma rows_consistent_apply_op:
  assumes "apply_op op (Some t) = Inr t'" and "rows_consistent t"
  shows "rows_consistent t'"
  using rows_apply_op [OF assms(1)] assms(2)
  by (cases op) (auto simp: rows_consistent_def list_all_iff)

lemma distinct_ids_apply_op:
  assumes "apply_op op (Some t) = Inr t'" and "distinct (map we_id (whiteboard_elements t))"
  shows "distinct (map we_id (whiteboard_elements t'))"
  using rows_apply_op [OF assms(1)] assms(2)
  by (cases op) (auto simp: distinct_map_filter)

lemma rows_consistent_run_ops:
  "run_ops ops t = Inr t' \<Longrightarrow> rows_consistent t \<Longrightarrow> rows_consistent t'"
proof (induction ops arbitrary: t)
  case Nil
  then show ?case by simp
next
  case (Cons op ops)
  then show ?case
    by (auto split: sum.splits dest: rows_consistent_apply_op)
qed

lemma distinct_ids_run_ops:
  "run_ops ops t = Inr t' \<Longrightarrow> distinct (map we_id (whiteboard_elements t)) \<Longrightarrow>
   distinct (map we_id (whiteboard_elements t'))"
proof (induction ops arbitrary: t)
  case Nil
  then show ?case by simp
next
  case (Cons op ops)
  then show ?case
    by (auto split: sum.splits dest: distinct_ids_apply_op)
qed

text \<open>
  The rows of a room, replayed: as long as no id written to another room is an id of the
  room, its rows hold exactly what \<open>commit_ops\<close> computes, in table order.
\<close>

lemma commit_step:
  assumes "run_ops ops t = Inr t'" "rows_consistent t"
    and "set (ids_elsewhere R ops) \<inter> (we_id ` set (room_rows R t) \<union> set (ids_in_room R ops)) = {}"
  shows "map we_elementData (room_rows R t') = commit_ops R ops (map we_elementData (room_rows R t))"
  using assms
proof (induction ops arbitrary: t)
  case Nil
  then show ?case by simp
next
  case (Cons op ops)
  obtain t1 where t1: "apply_op op (Some t) = Inr t1" using apply_op_open by blast
  with Cons.prems have run: "run_ops ops t1 = Inr t'" by simp
  have c1: "rows_consistent t1" using t1 Cons.prems(2) by (rule rows_consistent_apply_op)
  have cons: "\<And>r. r \<in> set (whiteboard_elements t) \<Longrightarrow> we_id r = element_id (we_elementData r)"
    using Cons.prems(2) by (simp add: rows_consistent_def list_all_iff)
  show ?case
  proof (cases op)
    case (Save roomId el)
    have rows1: "whiteboard_elements t1 = filter (\<lambda>r. we_id r \<noteq> element_id el) (whiteboard_elements t) @
            [\<lparr>we_id = element_id el, we_roomId = roomId, we_elementData = el,
              we_timestamp = timestamp el\<rparr>]"
      using rows_apply_op [OF t1] Save by simp
    show ?thesis
    proof (cases "roomId = R")
      case True
      have rr: "map we_elementData (room_rows R t1) =
           filter (\<lambda>x. element_id x \<noteq> element_id el) (map we_elementData (room_rows R t)) @ [el]"
        using True cons by (auto simp: room_rows_def rows1 filter_map comp_def intro!: arg_cong [where f = "map we_elementData"] filter_cong)
      have ids: "we_id ` set (room_rows R t1) \<subseteq> we_id ` set (room_rows R t) \<union> {element_id el}"
        by (auto simp: room_rows_def rows1)
      have pre: "set (ids_elsewhere R ops) \<inter> (we_id ` set (room_rows R t1) \<union> set (ids_in_room R ops)) = {}"
        using Cons.prems(3) ids Save True by (simp add: disjoint_iff) blast
      show ?thesis using Cons.IH [OF run c1 pre] rr Save True by simp
    next
      case False
      have "element_id el \<notin> we_id ` set (room_rows R t)"
        using Cons.prems(3) Save False by auto
      then have notin: "\<And>r. r \<in> set (whiteboard_elements t) \<Longrightarrow> we_roomId r = R \<Longrightarrow>
          we_id r \<noteq> element_id el"
        by (force simp: room_rows_def)
      have rr: "room_rows R t1 = room_rows R t"
        using False notin by (auto simp: room_rows_def rows1 intro!: filter_cong)
      have pre: "set (ids_elsewhere R ops) \<inter> (we_id ` set (room_rows R t1) \<union> set (ids_in_room R ops)) = {}"
        using Cons.prems(3) Save False rr by auto
      show ?thesis using Cons.IH [OF run c1 pre] rr Save False by simp
    qed
  next
    case (Clear roomId)
    have rows1: "whiteboard_elements t1 = filter (\<lambda>r. we_roomId r \<noteq> roomId) (whiteboard_elements t)"
      using rows_apply_op [OF t1] Clear by simp
    have rr: "room_rows R t1 = (if roomId = R then [] else room_rows R t)"
      by (auto simp: room_rows_def rows1 intro!: filter_cong)
    have pre: "set (ids_elsewhere R ops) \<inter> (we_id ` set (room_rows R t1) \<union> set (ids_in_room R ops)) = {}"
      using Cons.prems(3) Clear rr by (auto split: if_splits)
    show ?thesis using Cons.IH [OF run c1 pre] rr Clear by simp
  next
    case (AddUser n r u)
    have rr: "room_rows R t1 = room_rows R t"
      using rows_apply_op [OF t1] AddUser by (simp add: room_rows_def)
    have pre: "set (ids_elsewhere R ops) \<inter> (we_id ` set (room_rows R t1) \<union> set (ids_in_room R ops)) = {}"
      using Cons.prems(3) AddUser rr by auto
    show ?thesis using Cons.IH [OF run c1 pre] rr AddUser by simp
  next
    case (RemoveUser r u)
    have rr: "room_rows R t1 = room_rows R t"
      using rows_apply_op [OF t1] RemoveUser by (simp add: room_rows_def)
    have pre: "set (ids_elsewhere R ops) \<inter> (we_id ` set (room_rows R t1) \<union> set (ids_in_room R ops)) = {}"
      using Cons.prems(3) RemoveUser rr by auto
    show ?thesis using Cons.IH [OF run c1 pre] rr RemoveUser by simp
  qed
qed

text \<open>The snapshot read is sorted by the stored timestamp and has no duplicate id.\<close>

lemma distinct_map_sort_key: "distinct (map g (sort_key f xs)) = distinct (map g xs)"
  by (simp add: distinct_map)

lemma getRoomElements_open:
  "getRoomElements (Some t) R = Inr (map we_elementData (sort_key we_timestamp (room_rows R t)))"
  by (simp add: getRoomElements_def room_rows_def)

lemma snapshot_sorted:
  assumes "rows_consistent t"
  shows "sorted (map timestamp (map we_elementData (sort_key we_timestamp (room_rows R t))))"
proof -
  have eq: "map timestamp (map we_elementData (sort_key we_timestamp (room_rows R t))) =
        map we_timestamp (sort_key we_timestamp (room_rows R t))"
    using assms by (auto simp: rows_consistent_def list_all_iff room_rows_def)
  show ?thesis unfolding eq by (rule sorted_sort_key)
qed

lemma snapshot_distinct:
  assumes "rows_consistent t" and "distinct (map we_id (whiteboard_elements t))"
  shows "distinct (map element_id (map we_elementData (sort_key we_timestamp (room_rows R t))))"
proof -
  have eq: "map element_id (map we_elementData (sort_key we_timestamp (room_rows R t))) =
        map we_id (sort_key we_timestamp (room_rows R t))"
    using assms(1) by (auto simp: rows_consistent_def list_all_iff room_rows_def)
  have "distinct (map we_id (room_rows R t))"
    using assms(2) by (simp add: room_rows_def distinct_map_filter)
  then show ?thesis unfolding eq by (simp only: distinct_map_sort_key)
qed

text \<open>After a clear no row of the room is left; later rows come from later writes.\<close>

lemma no_room_rows_after_clear:
  "clearRoomElements (Some t) R = Inr t1 \<Longrightarrow> room_rows R t1 = []"
  by (auto simp: clearRoomElements_def room_rows_def filter_empty_conv)

lemma room_rows_origin:
  assumes "run_ops ops t = Inr t'" and "r \<in> set (room_rows R t')"
  shows "r \<in> set (room_rows R t) \<or> Save R (we_elementData r) \<in> set ops"
  using assms
proof (induction ops arbitrary: t)
  case Nil
  then show ?case by simp
next
  case (Cons op ops)
  obtain t1 where t1: "apply_op op (Some t) = Inr t1" using apply_op_open by blast
  with Cons.prems have run: "run_ops ops t1 = Inr t'" by simp
  from Cons.IH [OF run Cons.prems(2)]
  have "r \<in> set (room_rows R t1) \<or> Save R (we_elementData r) \<in> set ops" .
  moreover have "r \<in> set (room_rows R t1) \<Longrightarrow>
      r \<in> set (room_rows R t) \<or> op = Save R (we_elementData r)"
    using rows_apply_op [OF t1] by (cases op) (auto simp: room_rows_def split: if_splits)
  ultimately show ?case by auto
qed

section \<open>Facts about the handlers\<close>

text \<open>\<open>socket.to(room)\<close> never reaches the sending socket, and reaches only sockets that
  are in the room.\<close>

lemma socket_to_excludes: "sid \<notin> set (socket_to a roomId sid)"
  by (auto simp: socket_to_def)

lemma socket_to_members: "c \<in> set (socket_to a roomId sid) \<Longrightarrow> (roomId, c) \<in> set a \<and> c \<noteq> sid"
  by (auto simp: socket_to_def)

lemma handleUserLeave_emits:
  "Emit rs e \<in> set (snd (handleUserLeave sid roomId userId s)) \<Longrightarrow> sid \<notin> set rs"
  by (auto simp: handleUserLeave_def Let_def socket_to_excludes split: sum.splits)

lemma join_room_emits:
  assumes "Emit rs e \<in> set (snd (join_room env sid data s))" and "sid \<in> set rs"
  shows "\<exists>us. e = RoomUsersUpdated us"
  using assms
  by (auto simp: join_room_def Let_def socket_to_excludes
      split: sum.splits option.splits if_splits prod.splits)

lemma other_handlers_emit:
  assumes "Emit rs e \<in> set (snd (handle env sid ev s))" and "\<And>d. ev \<noteq> On_join_room d"
  shows "sid \<notin> set rs"
proof (cases ev)
  case (On_join_room d)
  with assms(2) show ?thesis by blast
next
  case On_leave_room
  with assms(1) show ?thesis
    by (auto simp: leave_room_def Let_def dest: handleUserLeave_emits split: if_splits)
next
  case On_disconnect
  with assms(1) show ?thesis
    by (auto simp: disconnect_def Let_def dest: handleUserLeave_emits split: if_splits)
next
  case (On_drawing_start el)
  with assms(1) show ?thesis
    by (auto simp: drawing_start_def Let_def socket_to_excludes split: if_splits sum.splits)
next
  case (On_drawing_update el)
  with assms(1) show ?thesis
    by (auto simp: drawing_update_def Let_def socket_to_excludes split: if_splits sum.splits)
next
  case (On_drawing_end el)
  with assms(1) show ?thesis
    by (auto simp: drawing_end_def Let_def socket_to_excludes split: if_splits sum.splits)
next
  case (On_text_added el)
  with assms(1) show ?thesis
    by (auto simp: text_added_def Let_def socket_to_excludes split: if_splits sum.splits)
next
  case On_clear_canvas
  with assms(1) show ?thesis
    by (auto simp: clear_canvas_def Let_def socket_to_excludes split: if_splits sum.splits)
next
  case (On_cursor_move pos)
  with assms(1) show ?thesis
    by (auto simp: cursor_move_def Let_def socket_to_excludes split: if_splits)
qed

lemma io_to_socket_join:
  "set (io_to (socket_join a roomId sid) roomId) = insert sid {c. (roomId, c) \<in> set a}"
  by (auto simp: io_to_def socket_join_def image_iff)

lemma set_io_to: "set (io_to a roomId) = {c. (roomId, c) \<in> set a}"
  by (force simp: io_to_def)

lemma join_success_users_updated:
  assumes "join_succeeds sid (join_room env sid data s)"
  shows "(\<exists>us. Emit (io_to (adapter (fst (join_room env sid data s))) (join_roomId data))
                 (RoomUsersUpdated us) \<in> set (snd (join_room env sid data s))) \<and>
         adapter (fst (join_room env sid data s)) =
           socket_join (adapter s) (join_roomId data) sid \<and>
         (\<forall>rs us. Emit rs (RoomUsersUpdated us) \<in> set (snd (join_room env sid data s)) \<longrightarrow>
            rs = io_to (socket_join (adapter s) (join_roomId data) sid) (join_roomId data))"
proof -
  obtain t where db: "dbManager s = Some t"
    using assms
    by (cases "dbManager s")
       (auto simp: join_succeeds_def join_room_def Let_def manager_defs getRoom_def)
  show ?thesis
    using assms db
    by (auto simp: join_succeeds_def join_room_def Let_def manager_defs addUserToRoom_def
        getRoomElements_def getRoomUsers_def
        split: sum.splits option.splits if_splits prod.splits)
qed

lemma getRoom_unknown:
  "roomId \<notin> set (map r_id (rooms t)) \<Longrightarrow> getRoom (Some t) roomId = Inr None"
proof -
  assume "roomId \<notin> set (map r_id (rooms t))"
  then have "filter (\<lambda>r. r_id r = roomId) (rooms t) = []"
    by (auto simp: filter_empty_conv)
  then show ?thesis by (simp add: getRoom_def)
qed

text \<open>
  The element list in the acknowledgment of a join is the snapshot read of the room, before
  and after the join.
\<close>

lemma join_ack_is_snapshot:
  assumes "Callback c (JoinSuccess room u es) \<in> set (snd (join_room env sid data s))"
  shows "c = sid \<and> getRoomElements (dbManager s) (join_roomId data) = Inr es \<and>
         getRoomElements (dbManager (fst (join_room env sid data s))) (join_roomId data) = Inr es"
  using assms
  by (auto simp: join_room_def Let_def manager_defs addUserToRoom_def
        getRoomElements_def getRoomUsers_def
        split: sum.splits option.splits if_splits prod.splits)

section \<open>The claims\<close>

subsection \<open>C1: the snapshot returned on join\<close>

text \<open>
  Claim C1, as amended. The element sequence read for a room \<open>R\<close> (the sequence a join
  returns) after any history of writes on an initially empty element table, in which no
  element id written to \<open>R\<close> is also written to another room, consists of exactly the
  elements committed to \<open>R\<close> since its last clear, each in the version written last; it is
  sorted by the timestamp those versions carry, and no element id occurs twice.
\<close>

theorem snapshot_latest_versions_by_timestamp:
  assumes "whiteboard_elements t0 = []"
    and "set (ids_in_room R ops) \<inter> set (ids_elsewhere R ops) = {}"
  shows "\<exists>es. snapshot_after ops t0 R = Inr es \<and>
              set es = set (committed_since_clear R ops) \<and>
              sorted (map timestamp es) \<and>
              distinct (map element_id es)"
proof -
  obtain t' where run: "run_ops ops t0 = Inr t'" using run_ops_open by blast
  have c0: "rows_consistent t0" using assms(1) by (simp add: rows_consistent_def)
  have d0: "distinct (map we_id (whiteboard_elements t0))" using assms(1) by simp
  have c: "rows_consistent t'" using run c0 by (rule rows_consistent_run_ops)
  have d: "distinct (map we_id (whiteboard_elements t'))" using run d0 by (rule distinct_ids_run_ops)
  have pre: "set (ids_elsewhere R ops) \<inter> (we_id ` set (room_rows R t0) \<union> set (ids_in_room R ops)) = {}"
    using assms by (auto simp: room_rows_def)
  have "map we_elementData (room_rows R t') = commit_ops R ops (map we_elementData (room_rows R t0))"
    using run c0 pre by (rule commit_step)
  then have rows: "map we_elementData (room_rows R t') = committed_since_clear R ops"
    using assms(1) by (simp add: committed_since_clear_def room_rows_def)
  let ?es = "map we_elementData (sort_key we_timestamp (room_rows R t'))"
  have "snapshot_after ops t0 R = Inr ?es"
    using run by (simp add: snapshot_after_def getRoomElements_open)
  moreover have "set ?es = set (committed_since_clear R ops)"
    using rows [symmetric] by simp
  moreover have "sorted (map timestamp ?es)" using c by (rule snapshot_sorted)
  moreover have "distinct (map element_id ?es)" using c d by (rule snapshot_distinct)
  ultimately show ?thesis by blast
qed

theorem snapshot_latest_versions_by_timestamp_witness:
  "whiteboard_elements createTables = [] \<and>
   set (ids_in_room ''r''
          [Save ''r'' \<lparr>element_id = ''a'', timestamp = 1, content = ''v1''\<rparr>,
           Save ''q'' \<lparr>element_id = ''c'', timestamp = 2, content = ''v1''\<rparr>,
           Clear ''q'',
           Save ''r'' \<lparr>element_id = ''a'', timestamp = 3, content = ''v2''\<rparr>]) \<inter>
   set (ids_elsewhere ''r''
          [Save ''r'' \<lparr>element_id = ''a'', timestamp = 1, content = ''v1''\<rparr>,
           Save ''q'' \<lparr>element_id = ''c'', timestamp = 2, content = ''v1''\<rparr>,
           Clear ''q'',
           Save ''r'' \<lparr>element_id = ''a'', timestamp = 3, content = ''v2''\<rparr>]) = {} \<and>
   (\<exists>es. snapshot_after
            [Save ''r'' \<lparr>element_id = ''a'', timestamp = 1, content = ''v1''\<rparr>,
             Save ''q'' \<lparr>element_id = ''c'', timestamp = 2, content = ''v1''\<rparr>,
             Clear ''q'',
             Save ''r'' \<lparr>element_id = ''a'', timestamp = 3, content = ''v2''\<rparr>]
            createTables ''r'' = Inr es \<and>
          set es = {\<lparr>element_id = ''a'', timestamp = 3, content = ''v2''\<rparr>} \<and>
          sorted (map timestamp es) \<and> distinct (map element_id es))"
proof -
  let ?ops = "[Save ''r'' \<lparr>element_id = ''a'', timestamp = 1, content = ''v1''\<rparr>,
           Save ''q'' \<lparr>element_id = ''c'', timestamp = 2, content = ''v1''\<rparr>,
           Clear ''q'',
           Save ''r'' \<lparr>element_id = ''a'', timestamp = 3, content = ''v2''\<rparr>]"
  have h1: "whiteboard_elements createTables = []" by (simp add: createTables_def)
  have h2: "set (ids_in_room ''r'' ?ops) \<inter> set (ids_elsewhere ''r'' ?ops) = {}" by simp
  have c: "committed_since_clear ''r'' ?ops = [\<lparr>element_id = ''a'', timestamp = 3, content = ''v2''\<rparr>]"
    by (simp add: committed_since_clear_def)
  from snapshot_latest_versions_by_timestamp [OF h1 h2] h1 h2 c show ?thesis by simp
qed

text \<open>
  Claim C1 as stated asks for the order of original creation, unchanged by updates. Element
  \<open>a\<close> is created at time 1, element \<open>b\<close> at time 2, then \<open>a\<close> is updated with timestamp 3:
  the snapshot lists \<open>b\<close> before \<open>a\<close>, the order by creation lists \<open>a\<close> before \<open>b\<close>.
\<close>

theorem snapshot_creation_order_counterexample:
  "snapshot_after
     [Save ''r'' \<lparr>element_id = ''a'', timestamp = 1, content = ''v1''\<rparr>,
      Save ''r'' \<lparr>element_id = ''b'', timestamp = 2, content = ''v1''\<rparr>,
      Save ''r'' \<lparr>element_id = ''a'', timestamp = 3, content = ''v2''\<rparr>]
     createTables ''r'' \<noteq>
   Inr (snapshot_by_creation ''r''
     [Save ''r'' \<lparr>element_id = ''a'', timestamp = 1, content = ''v1''\<rparr>,
      Save ''r'' \<lparr>element_id = ''b'', timestamp = 2, content = ''v1''\<rparr>,
      Save ''r'' \<lparr>element_id = ''a'', timestamp = 3, content = ''v2''\<rparr>]) \<and>
   snapshot_after
     [Save ''r'' \<lparr>element_id = ''a'', timestamp = 1, content = ''v1''\<rparr>,
      Save ''r'' \<lparr>element_id = ''b'', timestamp = 2, content = ''v1''\<rparr>,
      Save ''r'' \<lparr>element_id = ''a'', timestamp = 3, content = ''v2''\<rparr>]
     createTables ''r'' =
   Inr [\<lparr>element_id = ''b'', timestamp = 2, content = ''v1''\<rparr>,
        \<lparr>element_id = ''a'', timestamp = 3, content = ''v2''\<rparr>] \<and>
   snapshot_by_creation ''r''
     [Save ''r'' \<lparr>element_id = ''a'', timestamp = 1, content = ''v1''\<rparr>,
      Save ''r'' \<lparr>element_id = ''b'', timestamp = 2, content = ''v1''\<rparr>,
      Save ''r'' \<lparr>element_id = ''a'', timestamp = 3, content = ''v2''\<rparr>] =
   [\<lparr>element_id = ''a'', timestamp = 3, content = ''v2''\<rparr>,
    \<lparr>element_id = ''b'', timestamp = 2, content = ''v1''\<rparr>]"
  by (simp add: snapshot_after_def snapshot_by_creation_def store_defs createTables_def)

subsection \<open>C2: two writes to one element id\<close>

text \<open>
  Claim C2, as amended. For two writes to the same element id in the same room, on a store
  whose rows were written by \<open>saveElement\<close>, a read of that id after both writes returns
  exactly the content of the write applied last, whatever the two timestamps are; the
  content of the write applied first is discarded, not merged.
\<close>

theorem last_applied_write_wins:
  assumes "rows_consistent t" and "element_id e1 = element_id e2"
  shows "\<exists>es. snapshot_after [Save R e1, Save R e2] t R = Inr es \<and>
              filter (\<lambda>x. element_id x = element_id e2) es = [e2] \<and>
              (e1 \<noteq> e2 \<longrightarrow> e1 \<notin> set es)"
proof -
  let ?new = "\<lparr>we_id = element_id e2, we_roomId = R, we_elementData = e2, we_timestamp = timestamp e2\<rparr>"
  let ?old = "filter (\<lambda>r. we_roomId r = R) (filter (\<lambda>r. we_id r \<noteq> element_id e2) (whiteboard_elements t))"
  let ?es = "map we_elementData (sort_key we_timestamp (?old @ [?new]))"
  have snap: "snapshot_after [Save R e1, Save R e2] t R = Inr ?es"
    using assms(2)
    by (simp add: snapshot_after_def saveElement_def getRoomElements_def insert_or_replace_def)
  have old: "\<And>r. r \<in> set ?old \<Longrightarrow> element_id (we_elementData r) \<noteq> element_id e2"
    using assms(1) by (auto simp: rows_consistent_def list_all_iff)
  have "filter (\<lambda>x. element_id x = element_id e2) ?es =
        map we_elementData (sort_key we_timestamp
          (filter (\<lambda>r. element_id (we_elementData r) = element_id e2) (?old @ [?new])))"
    by (simp only: filter_map filter_sort comp_def)
  also have "filter (\<lambda>r. element_id (we_elementData r) = element_id e2) (?old @ [?new]) = [?new]"
    using old by (auto simp: filter_empty_conv)
  finally have one: "filter (\<lambda>x. element_id x = element_id e2) ?es = [e2]" by simp
  have "e1 \<noteq> e2 \<longrightarrow> e1 \<notin> set ?es"
  proof (intro impI notI)
    assume ne: "e1 \<noteq> e2" and "e1 \<in> set ?es"
    then have "e1 \<in> set (filter (\<lambda>x. element_id x = element_id e2) ?es)"
      using assms(2) by simp
    with one ne show False by simp
  qed
  with snap one show ?thesis by blast
qed

theorem last_applied_write_wins_witness:
  "rows_consistent example_tables \<and>
   element_id \<lparr>element_id = ''a'', timestamp = 12, content = ''late''\<rparr> =
   element_id \<lparr>element_id = ''a'', timestamp = 11, content = ''early''\<rparr> \<and>
   (\<exists>es. snapshot_after
            [Save ''room-1'' \<lparr>element_id = ''a'', timestamp = 12, content = ''late''\<rparr>,
             Save ''room-1'' \<lparr>element_id = ''a'', timestamp = 11, content = ''early''\<rparr>]
            example_tables ''room-1'' = Inr es \<and>
          filter (\<lambda>x. element_id x = ''a'') es =
            [\<lparr>element_id = ''a'', timestamp = 11, content = ''early''\<rparr>] \<and>
          \<lparr>element_id = ''a'', timestamp = 12, content = ''late''\<rparr> \<notin> set es)"
proof -
  have h1: "rows_consistent example_tables"
    by (simp add: rows_consistent_def example_tables_def)
  have h2: "element_id \<lparr>element_id = ''a'', timestamp = 12, content = ''late''\<rparr> =
            element_id \<lparr>element_id = ''a'', timestamp = 11, content = ''early''\<rparr>" by simp
  from last_applied_write_wins [OF h1 h2, of "''room-1''"] h1 show ?thesis by simp
qed

text \<open>
  Claim C2 as stated lets the later timestamp win regardless of the order of application.
  When the write with timestamp 2 is applied first and the write with timestamp 1 second,
  the read returns the content with timestamp 1.
\<close>

theorem later_timestamp_wins_counterexample:
  "snapshot_after
     [Save ''r'' \<lparr>element_id = ''a'', timestamp = 2, content = ''late''\<rparr>,
      Save ''r'' \<lparr>element_id = ''a'', timestamp = 1, content = ''early''\<rparr>]
     createTables ''r'' =
   Inr [\<lparr>element_id = ''a'', timestamp = 1, content = ''early''\<rparr>] \<and>
   timestamp \<lparr>element_id = ''a'', timestamp = 1, content = ''early''\<rparr> <
   timestamp \<lparr>element_id = ''a'', timestamp = 2, content = ''late''\<rparr>"
  by (simp add: snapshot_after_def store_defs createTables_def)

subsection \<open>C3: the recipients of a broadcast\<close>

text \<open>
  Claim C3, as amended. Among the events emitted while handling a client event, the only
  one whose recipients can contain the connection that sent the client event is the
  \<open>room-users-updated\<close> of a join; every other emission excludes the sender. After a
  successful join that \<open>room-users-updated\<close> is emitted, and its recipients are exactly
  the connections in the room after the join: those that were in the room before, and the
  joining one.
\<close>

theorem broadcast_recipients:
  "(\<forall>rs e. Emit rs e \<in> set (snd (handle env sid ev s)) \<and> sid \<in> set rs \<longrightarrow>
       (\<exists>d us. ev = On_join_room d \<and> e = RoomUsersUpdated us)) \<and>
   (\<forall>d. ev = On_join_room d \<and> join_succeeds sid (handle env sid ev s) \<longrightarrow>
       (\<exists>rs us. Emit rs (RoomUsersUpdated us) \<in> set (snd (handle env sid ev s)) \<and>
                sid \<in> set rs) \<and>
       (\<forall>rs us. Emit rs (RoomUsersUpdated us) \<in> set (snd (handle env sid ev s)) \<longrightarrow>
          rs = io_to (adapter (fst (handle env sid ev s))) (join_roomId d) \<and>
          set rs = insert sid {c. (join_roomId d, c) \<in> set (adapter s)} \<and>
          set rs = {c. (join_roomId d, c) \<in> set (adapter (fst (handle env sid ev s)))}))"
proof (intro conjI allI impI)
  fix rs e
  assume a: "Emit rs e \<in> set (snd (handle env sid ev s)) \<and> sid \<in> set rs"
  show "\<exists>d us. ev = On_join_room d \<and> e = RoomUsersUpdated us"
  proof (cases "\<exists>d. ev = On_join_room d")
    case True
    then obtain d where d: "ev = On_join_room d" by blast
    with a join_room_emits [of rs e env sid d s] show ?thesis by simp
  next
    case False
    then have "sid \<notin> set rs" using a other_handlers_emit [of rs e env sid ev s] by blast
    with a show ?thesis by simp
  qed
next
  fix d
  assume "ev = On_join_room d \<and> join_succeeds sid (handle env sid ev s)"
  then have ev: "ev = On_join_room d" and ok: "join_succeeds sid (join_room env sid d s)"
    by auto
  note j = join_success_users_updated [OF ok]
  have mem: "set (io_to (socket_join (adapter s) (join_roomId d) sid) (join_roomId d)) =
             insert sid {c. (join_roomId d, c) \<in> set (adapter s)}"
    by (rule io_to_socket_join)
  show "\<exists>rs us. Emit rs (RoomUsersUpdated us) \<in> set (snd (handle env sid ev s)) \<and> sid \<in> set rs"
    using j mem ev by (metis handle.simps(1) insertI1)
  {
    fix rs us
    assume e: "Emit rs (RoomUsersUpdated us) \<in> set (snd (handle env sid ev s))"
    then have rs: "rs = io_to (socket_join (adapter s) (join_roomId d) sid) (join_roomId d)"
      using j ev by auto
    show "rs = io_to (adapter (fst (handle env sid ev s))) (join_roomId d)"
      using rs j ev by simp
    show "set rs = insert sid {c. (join_roomId d, c) \<in> set (adapter s)}"
      using rs mem by simp
    show "set rs = {c. (join_roomId d, c) \<in> set (adapter (fst (handle env sid ev s)))}"
      using rs j ev by (simp add: set_io_to)
  }
qed

theorem broadcast_recipients_witness:
  "join_succeeds ''A''
     (handle example_env ''A''
        (On_join_room \<lparr>join_roomId = ''room-1'', join_password = Undefined,
                        join_userName = ''Ann''\<rparr>)
        example_server) \<and>
   Emit [''B'', ''C'', ''A''] (RoomUsersUpdated []) \<in>
        set (snd (handle example_env ''A''
                    (On_join_room \<lparr>join_roomId = ''room-1'', join_password = Undefined,
                                    join_userName = ''Ann''\<rparr>)
                    example_server)) \<and>
   set [''B'', ''C'', ''A''] = insert ''A'' {c. (''room-1'', c) \<in> set (adapter example_server)} \<and>
   Emit [''C''] (DrawingStart \<lparr>element_id = ''b'', timestamp = 10, content = ''new''\<rparr> ''user-2'')
     \<in> set (snd (handle example_env ''B''
                    (On_drawing_start \<lparr>element_id = ''b'', timestamp = 10, content = ''new''\<rparr>)
                    example_server)) \<and>
   ''B'' \<notin> set [''C'']"
proof -
  let ?d = "\<lparr>join_roomId = ''room-1'', join_password = Undefined, join_userName = ''Ann''\<rparr>"
  let ?el = "\<lparr>element_id = ''b'', timestamp = 10, content = ''new''\<rparr>"
  have h1: "join_succeeds ''A'' (handle example_env ''A'' (On_join_room ?d) example_server)"
    by (simp add: join_succeeds_def join_room_def manager_defs store_defs example_defs
        AuthManager_createOrGetUser_def colors_def socket_join_def socket_to_def io_to_def Let_def)
  have h0: "Emit [''B'', ''C'', ''A''] (RoomUsersUpdated []) \<in>
        set (snd (handle example_env ''A'' (On_join_room ?d) example_server))"
    by (simp add: join_room_def manager_defs store_defs example_defs
        AuthManager_createOrGetUser_def colors_def socket_join_def socket_to_def io_to_def Let_def)
  have h2: "Emit [''C''] (DrawingStart ?el ''user-2'')
     \<in> set (snd (handle example_env ''B'' (On_drawing_start ?el) example_server))"
    by (simp add: drawing_start_def manager_defs store_defs example_defs socket_to_def Let_def)
  have h3: "''B'' \<notin> set [''C'']" by simp
  have r: "join_roomId ?d = ''room-1''" by simp
  from broadcast_recipients [of example_env "''A''" "On_join_room ?d" example_server] h1 h0
  have "set [''B'', ''C'', ''A''] = insert ''A'' {c. (join_roomId ?d, c) \<in> set (adapter example_server)}"
    by blast
  with h1 h0 h2 h3 r
       broadcast_recipients [of example_env "''B''" "On_drawing_start ?el" example_server]
  show ?thesis by simp
qed

text \<open>
  Claim C3 as stated excludes the sender from every emission, the \<open>room-users-updated\<close>
  after a join in particular. Connection \<open>A\<close> joins \<open>room-1\<close>, where \<open>B\<close> and \<open>C\<close> are:
  \<open>user-joined\<close> goes to \<open>B\<close> and \<open>C\<close>, \<open>room-users-updated\<close> goes to \<open>B\<close>, \<open>C\<close> and \<open>A\<close>.
\<close>

theorem join_users_updated_counterexample:
  "snd (handle example_env ''A''
          (On_join_room \<lparr>join_roomId = ''room-1'', join_password = Undefined,
                          join_userName = ''Ann''\<rparr>)
          example_server) =
   [Persist (AddUser 9 ''room-1'' ''user-1''),
    Callback ''A''
      (JoinSuccess
         \<lparr>room_id = ''room-1'', room_name = ''Board'', isPrivate = False, password = Null,
          permissions = ''edit'', createdAt = 1, users = []\<rparr>
         \<lparr>user_id = ''user-1'', user_name = ''Ann'', color = ''#3B82F6'',
          socketId = Str ''A''\<rparr>
         [\<lparr>element_id = ''a'', timestamp = 7, content = ''line''\<rparr>]),
    Emit [''B'', ''C'']
      (UserJoined \<lparr>user_id = ''user-1'', user_name = ''Ann'', color = ''#3B82F6'',
                   socketId = Str ''A''\<rparr>),
    Emit [''B'', ''C'', ''A''] (RoomUsersUpdated [])] \<and>
   ''A'' \<in> set [''B'', ''C'', ''A'']"
  by (simp add: join_room_def manager_defs store_defs example_defs
      AuthManager_createOrGetUser_def colors_def socket_join_def socket_to_def io_to_def Let_def)

subsection \<open>C4: joining a room that does not exist\<close>

text \<open>
  Claim C4. When the requested room id is not the id of a stored room, \<open>join-room\<close> passes
  the error \<open>Room not found\<close> to the callback of the requesting connection and does nothing
  else: the state (users, membership, \<open>socket.data\<close>, socket.io rooms, database) is
  unchanged and nothing is emitted.
\<close>

theorem join_unknown_room:
  assumes "dbManager s = Some t" and "join_roomId data \<notin> set (map r_id (rooms t))"
  shows "handle env sid (On_join_room data) s =
           (s, [Callback sid (JoinFailure ''Room not found'')])"
  using getRoom_unknown [OF assms(2)] assms(1)
  by (simp add: join_room_def RoomManager_getRoom_def)

theorem join_unknown_room_witness:
  "dbManager example_server = Some example_tables \<and>
   ''room-9'' \<notin> set (map r_id (rooms example_tables)) \<and>
   handle example_env ''A''
     (On_join_room \<lparr>join_roomId = ''room-9'', join_password = Undefined,
                     join_userName = ''Ann''\<rparr>)
     example_server =
   (example_server, [Callback ''A'' (JoinFailure ''Room not found'')])"
proof -
  have h1: "dbManager example_server = Some example_tables"
    by (simp add: example_server_def)
  have h2: "join_roomId \<lparr>join_roomId = ''room-9'', join_password = Undefined,
                         join_userName = ''Ann''\<rparr> \<notin> set (map r_id (rooms example_tables))"
    by (simp add: example_tables_def)
  from join_unknown_room [OF h1 h2, of example_env "''A''"] h1 h2
  show ?thesis by simp
qed

subsection \<open>C5: the password check\<close>

text \<open>
  Claim C5. For an existing room, a join succeeds if and only if the room is public or the
  supplied password (absent, \<open>null\<close> or a string) is strictly equal to the stored
  password: a private room needs the exact password, a public room accepts any.
\<close>

theorem join_password_check:
  assumes "getRoom (dbManager s) (join_roomId data) = Inr (Some room)"
  shows "join_succeeds sid (handle env sid (On_join_room data) s) \<longleftrightarrow>
           (isPrivate room \<longrightarrow> password room = join_password data)"
proof -
  obtain t where db: "dbManager s = Some t"
    using assms by (cases "dbManager s") (auto simp: getRoom_def)
  show ?thesis
    using assms db
    by (auto simp: join_succeeds_def join_room_def Let_def manager_defs addUserToRoom_def
        getRoomElements_def getRoomUsers_def
        split: sum.splits option.splits if_splits prod.splits)
qed

theorem join_password_check_witness:
  "getRoom (dbManager example_server) ''room-2'' =
     Inr (Some \<lparr>room_id = ''room-2'', room_name = ''Lab'', isPrivate = True,
                password = Str ''pw'', permissions = ''edit'', createdAt = 2, users = []\<rparr>) \<and>
   join_succeeds ''A''
     (handle example_env ''A''
        (On_join_room \<lparr>join_roomId = ''room-2'', join_password = Str ''pw'',
                        join_userName = ''Ann''\<rparr>)
        example_server) \<and>
   \<not> join_succeeds ''A''
     (handle example_env ''A''
        (On_join_room \<lparr>join_roomId = ''room-2'', join_password = Undefined,
                        join_userName = ''Ann''\<rparr>)
        example_server)"
proof -
  let ?room = "\<lparr>room_id = ''room-2'', room_name = ''Lab'', isPrivate = True,
                password = Str ''pw'', permissions = ''edit'', createdAt = 2, users = []\<rparr>"
  let ?good = "\<lparr>join_roomId = ''room-2'', join_password = Str ''pw'', join_userName = ''Ann''\<rparr>"
  let ?bad = "\<lparr>join_roomId = ''room-2'', join_password = Undefined, join_userName = ''Ann''\<rparr>"
  have h: "getRoom (dbManager example_server) ''room-2'' = Inr (Some ?room)"
    by (simp add: store_defs example_defs)
  have g: "getRoom (dbManager example_server) (join_roomId ?good) = Inr (Some ?room)"
    using h by simp
  have b: "getRoom (dbManager example_server) (join_roomId ?bad) = Inr (Some ?room)"
    using h by simp
  from join_password_check [OF g, of "''A''" example_env]
       join_password_check [OF b, of "''A''" example_env] h
  show ?thesis by simp
qed

subsection \<open>C6: persist, then broadcast\<close>

text \<open>
  Claim C6. For a connection with \<open>roomId\<close> and \<open>userId\<close> recorded and an open database,
  each of \<open>drawing-start\<close>, \<open>drawing-update\<close>, \<open>drawing-end\<close>, \<open>text-added\<close> and
  \<open>clear-canvas\<close> has exactly two effects, in this order: the write to the store, which
  has completed and is part of the new state, and then the broadcast of the matching
  event. The broadcast goes to the sockets of the same room other than the sender.
\<close>

theorem mutation_persisted_before_broadcast:
  assumes "dbManager s = Some t"
    and "sd_roomId (sockets s sid) = Some R" and "R \<noteq> []"
    and "sd_userId (sockets s sid) = Some u" and "u \<noteq> []"
    and "(ev, op, e) \<in>
           {(On_drawing_start el, Save R el, DrawingStart el u),
            (On_drawing_update el, Save R el, DrawingUpdate el u),
            (On_drawing_end el, Save R el, DrawingEnd el u),
            (On_text_added el, Save R el, TextAdded el u),
            (On_clear_canvas, Clear R, CanvasCleared)}"
  shows "\<exists>t'. apply_op op (Some t) = Inr t' \<and>
              handle env sid ev s =
                (s\<lparr>dbManager := Some t'\<rparr>,
                 [Persist op, Emit (socket_to (adapter s) R sid) e]) \<and>
              sid \<notin> set (socket_to (adapter s) R sid) \<and>
              (\<forall>c\<in>set (socket_to (adapter s) R sid). (R, c) \<in> set (adapter s))"
proof -
  obtain t' where t': "apply_op op (Some t) = Inr t'" using apply_op_open by blast
  have "handle env sid ev s =
          (s\<lparr>dbManager := Some t'\<rparr>, [Persist op, Emit (socket_to (adapter s) R sid) e])"
    using assms t' by (auto simp: handler_defs manager_defs)
  moreover have "\<forall>c\<in>set (socket_to (adapter s) R sid). (R, c) \<in> set (adapter s)"
    using socket_to_members by blast
  ultimately show ?thesis using t' socket_to_excludes by blast
qed

theorem mutation_persisted_before_broadcast_witness:
  "dbManager example_server = Some example_tables \<and>
   sd_roomId (sockets example_server ''B'') = Some ''room-1'' \<and>
   sd_userId (sockets example_server ''B'') = Some ''user-2'' \<and>
   (\<exists>t'. saveElement (Some example_tables) ''room-1''
           \<lparr>element_id = ''b'', timestamp = 10, content = ''new''\<rparr> = Inr t' \<and>
         handle example_env ''B''
           (On_drawing_update \<lparr>element_id = ''b'', timestamp = 10, content = ''new''\<rparr>)
           example_server =
         (example_server\<lparr>dbManager := Some t'\<rparr>,
          [Persist (Save ''room-1'' \<lparr>element_id = ''b'', timestamp = 10, content = ''new''\<rparr>),
           Emit [''C'']
             (DrawingUpdate \<lparr>element_id = ''b'', timestamp = 10, content = ''new''\<rparr>
                ''user-2'')]))"
proof -
  let ?el = "\<lparr>element_id = ''b'', timestamp = 10, content = ''new''\<rparr>"
  have h1: "dbManager example_server = Some example_tables"
    by (simp add: example_server_def)
  have h2: "sd_roomId (sockets example_server ''B'') = Some ''room-1''"
    by (simp add: example_server_def)
  have h3: "sd_userId (sockets example_server ''B'') = Some ''user-2''"
    by (simp add: example_server_def)
  have h4: "''room-1'' \<noteq> []" and h5: "''user-2'' \<noteq> []" by simp_all
  have h6: "(On_drawing_update ?el, Save ''room-1'' ?el, DrawingUpdate ?el ''user-2'') \<in>
           {(On_drawing_start ?el, Save ''room-1'' ?el, DrawingStart ?el ''user-2''),
            (On_drawing_update ?el, Save ''room-1'' ?el, DrawingUpdate ?el ''user-2''),
            (On_drawing_end ?el, Save ''room-1'' ?el, DrawingEnd ?el ''user-2''),
            (On_text_added ?el, Save ''room-1'' ?el, TextAdded ?el ''user-2''),
            (On_clear_canvas, Clear ''room-1'', CanvasCleared)}" by simp
  have rs: "socket_to (adapter example_server) ''room-1'' ''B'' = [''C'']"
    by (simp add: socket_to_def example_server_def)
  from mutation_persisted_before_broadcast [OF h1 h2 h4 h3 h5 h6, of example_env] h1 h2 h3 rs
  show ?thesis by auto
qed

subsection \<open>C7: events of a connection that has not joined\<close>

text \<open>
  Claim C7. For a connection with no \<open>roomId\<close> and no \<open>userId\<close> recorded, each of
  \<open>drawing-start\<close>, \<open>drawing-update\<close>, \<open>drawing-end\<close>, \<open>text-added\<close>, \<open>clear-canvas\<close> and
  \<open>cursor-move\<close> is dropped: the state is unchanged, nothing is written, nothing is
  emitted and nothing is returned to the sender.
\<close>

theorem unjoined_events_dropped:
  assumes "falsy (sd_roomId (sockets s sid))" and "falsy (sd_userId (sockets s sid))"
    and "ev \<in> {On_drawing_start el, On_drawing_update el, On_drawing_end el,
               On_text_added el, On_clear_canvas, On_cursor_move pos}"
  shows "handle env sid ev s = (s, [])"
  using assms by (auto simp: handler_defs)

theorem unjoined_events_dropped_witness:
  "falsy (sd_roomId (sockets example_server ''A'')) \<and>
   falsy (sd_userId (sockets example_server ''A'')) \<and>
   handle example_env ''A''
     (On_drawing_start \<lparr>element_id = ''b'', timestamp = 10, content = ''new''\<rparr>)
     example_server = (example_server, []) \<and>
   handle example_env ''A'' On_clear_canvas example_server = (example_server, []) \<and>
   handle example_env ''A'' (On_cursor_move (1, 2)) example_server = (example_server, [])"
proof -
  let ?el = "\<lparr>element_id = ''b'', timestamp = 10, content = ''new''\<rparr>"
  have h1: "falsy (sd_roomId (sockets example_server ''A''))"
    by (simp add: example_server_def)
  have h2: "falsy (sd_userId (sockets example_server ''A''))"
    by (simp add: example_server_def)
  from unjoined_events_dropped [OF h1 h2, of "On_drawing_start ?el" ?el "(1, 2)" example_env]
       unjoined_events_dropped [OF h1 h2, of On_clear_canvas ?el "(1, 2)" example_env]
       unjoined_events_dropped [OF h1 h2, of "On_cursor_move (1, 2)" ?el "(1, 2)" example_env]
       h1 h2
  show ?thesis by simp
qed

subsection \<open>C8: membership add and remove are idempotent\<close>

text \<open>
  Claim C8. Adding a user to a room of which it is already a member succeeds and leaves the
  membership relation (and every other table) unchanged; removing a user from a room of
  which it is not a member succeeds and leaves the database unchanged.
\<close>

theorem membership_idempotent:
  "((R, u) \<in> members t \<longrightarrow>
      (\<exists>t'. addUserToRoom (Some t) now R u = Inr t' \<and> members t' = members t \<and>
            rooms t' = rooms t \<and> users_tbl t' = users_tbl t \<and>
            whiteboard_elements t' = whiteboard_elements t)) \<and>
   ((R, u) \<notin> members t \<longrightarrow> removeUserFromRoom (Some t) R u = Inr t)"
proof (intro conjI impI)
  assume "(R, u) \<in> members t"
  then show "\<exists>t'. addUserToRoom (Some t) now R u = Inr t' \<and> members t' = members t \<and>
            rooms t' = rooms t \<and> users_tbl t' = users_tbl t \<and>
            whiteboard_elements t' = whiteboard_elements t"
    by (auto simp: addUserToRoom_def members_def insert_or_replace_def)
next
  assume "(R, u) \<notin> members t"
  then have "filter (\<lambda>r. \<not> (ru_roomId r = R \<and> ru_userId r = u)) (room_users t) = room_users t"
    by (auto simp: members_def filter_id_conv)
  then show "removeUserFromRoom (Some t) R u = Inr t"
    by (simp add: removeUserFromRoom_def)
qed

theorem membership_idempotent_witness:
  "(''room-1'', ''user-2'') \<in> members example_tables \<and>
   (\<exists>t'. addUserToRoom (Some example_tables) 20 ''room-1'' ''user-2'' = Inr t' \<and>
         members t' = members example_tables) \<and>
   (''room-2'', ''user-2'') \<notin> members example_tables \<and>
   removeUserFromRoom (Some example_tables) ''room-2'' ''user-2'' = Inr example_tables"
proof -
  have h1: "(''room-1'', ''user-2'') \<in> members example_tables"
    by (simp add: members_def example_tables_def)
  have h2: "(''room-2'', ''user-2'') \<notin> members example_tables"
    by (simp add: members_def example_tables_def)
  from membership_idempotent [of "''room-1''" "''user-2''" example_tables 20]
       membership_idempotent [of "''room-2''" "''user-2''" example_tables]
       h1 h2
  show ?thesis by blast
qed

subsection \<open>C9: the snapshot after a clear\<close>

text \<open>
  Claim C9. After \<open>clearRoomElements\<close> on a room, a snapshot read of the room returns the
  empty sequence, and after any further history of writes every element in a snapshot of
  the room was committed to it by a write of that history: nothing committed before the
  clear comes back unless it is committed again.
\<close>

theorem cleared_room_snapshot:
  assumes "clearRoomElements (Some t) R = Inr t1"
  shows "getRoomElements (Some t1) R = Inr [] \<and>
         (\<exists>es. snapshot_after ops t1 R = Inr es \<and> (\<forall>e\<in>set es. Save R e \<in> set ops))"
proof -
  have empty: "room_rows R t1 = []" using assms by (rule no_room_rows_after_clear)
  obtain t' where run: "run_ops ops t1 = Inr t'" using run_ops_open by blast
  have "Save R (we_elementData r) \<in> set ops" if "r \<in> set (room_rows R t')" for r
    using room_rows_origin [OF run that] empty by simp
  then have "\<forall>e\<in>set (map we_elementData (sort_key we_timestamp (room_rows R t'))). Save R e \<in> set ops"
    by auto
  moreover have "snapshot_after ops t1 R = Inr (map we_elementData (sort_key we_timestamp (room_rows R t')))"
    using run by (simp add: snapshot_after_def getRoomElements_open)
  ultimately show ?thesis using empty by (simp add: getRoomElements_open)
qed

theorem cleared_room_snapshot_witness:
  "clearRoomElements (Some example_tables) ''room-1'' =
     Inr (example_tables\<lparr>whiteboard_elements :=
            [\<lparr>we_id = ''k'', we_roomId = ''room-2'',
              we_elementData = \<lparr>element_id = ''k'', timestamp = 8, content = ''note''\<rparr>,
              we_timestamp = 8\<rparr>]\<rparr>) \<and>
   getRoomElements
     (Some (example_tables\<lparr>whiteboard_elements :=
            [\<lparr>we_id = ''k'', we_roomId = ''room-2'',
              we_elementData = \<lparr>element_id = ''k'', timestamp = 8, content = ''note''\<rparr>,
              we_timestamp = 8\<rparr>]\<rparr>)) ''room-1'' = Inr [] \<and>
   (\<exists>es. snapshot_after
            [Save ''room-1'' \<lparr>element_id = ''b'', timestamp = 10, content = ''new''\<rparr>]
            (example_tables\<lparr>whiteboard_elements :=
               [\<lparr>we_id = ''k'', we_roomId = ''room-2'',
                 we_elementData = \<lparr>element_id = ''k'', timestamp = 8, content = ''note''\<rparr>,
                 we_timestamp = 8\<rparr>]\<rparr>) ''room-1'' = Inr es \<and>
          set es \<subseteq> {\<lparr>element_id = ''b'', timestamp = 10, content = ''new''\<rparr>})"
proof -
  have h: "clearRoomElements (Some example_tables) ''room-1'' =
     Inr (example_tables\<lparr>whiteboard_elements :=
            [\<lparr>we_id = ''k'', we_roomId = ''room-2'',
              we_elementData = \<lparr>element_id = ''k'', timestamp = 8, content = ''note''\<rparr>,
              we_timestamp = 8\<rparr>]\<rparr>)"
    by (simp add: clearRoomElements_def example_tables_def)
  from cleared_room_snapshot [OF h,
      of "[Save ''room-1'' \<lparr>element_id = ''b'', timestamp = 10, content = ''new''\<rparr>]"] h
  show ?thesis by auto
qed

subsection \<open>C10: what a clear leaves alone\<close>

text \<open>
  Claim C10. A \<open>clear-canvas\<close> in room \<open>R\<close> changes the state only by the deletion that
  \<open>clearRoomElements\<close> performs: the rows and the snapshot of every other room \<open>R'\<close>, the
  rooms, the users and the membership pairs are the same before and after, and so are the
  users of the \<open>AuthManager\<close>, \<open>socket.data\<close> and the socket.io rooms.
\<close>

theorem clear_canvas_frame:
  assumes "dbManager s = Some t"
    and "sd_roomId (sockets s sid) = Some R" and "R \<noteq> []" and "R' \<noteq> R"
  shows "\<exists>t'. clearRoomElements (Some t) R = Inr t' \<and>
              fst (handle env sid On_clear_canvas s) = s\<lparr>dbManager := Some t'\<rparr> \<and>
              room_rows R' t' = room_rows R' t \<and>
              getRoomElements (Some t') R' = getRoomElements (Some t) R' \<and>
              rooms t' = rooms t \<and> users_tbl t' = users_tbl t \<and>
              room_users t' = room_users t"
proof -
  let ?t' = "t\<lparr>whiteboard_elements := filter (\<lambda>r. we_roomId r \<noteq> R) (whiteboard_elements t)\<rparr>"
  have c: "clearRoomElements (Some t) R = Inr ?t'" by (simp add: clearRoomElements_def)
  have rr: "room_rows R' ?t' = room_rows R' t"
    using assms(4) by (auto simp: room_rows_def intro!: filter_cong)
  have "fst (handle env sid On_clear_canvas s) = s\<lparr>dbManager := Some ?t'\<rparr>"
    using assms c by (simp add: clear_canvas_def WhiteboardManager_clearRoom_def)
  moreover have "getRoomElements (Some ?t') R' = getRoomElements (Some t) R'"
    using rr by (simp only: getRoomElements_open)
  ultimately show ?thesis using c rr by auto
qed

theorem clear_canvas_frame_witness:
  "dbManager example_server = Some example_tables \<and>
   sd_roomId (sockets example_server ''B'') = Some ''room-1'' \<and>
   (\<exists>t'. clearRoomElements (Some example_tables) ''room-1'' = Inr t' \<and>
         fst (handle example_env ''B'' On_clear_canvas example_server) =
           example_server\<lparr>dbManager := Some t'\<rparr> \<and>
         getRoomElements (Some t') ''room-2'' =
           Inr [\<lparr>element_id = ''k'', timestamp = 8, content = ''note''\<rparr>] \<and>
         rooms t' = rooms example_tables \<and> users_tbl t' = users_tbl example_tables \<and>
         room_users t' = room_users example_tables)"
proof -
  have h1: "dbManager example_server = Some example_tables"
    by (simp add: example_server_def)
  have h2: "sd_roomId (sockets example_server ''B'') = Some ''room-1''"
    by (simp add: example_server_def)
  have h3: "''room-1'' \<noteq> []" and h4: "''room-2'' \<noteq> ''room-1''" by simp_all
  have g: "getRoomElements (Some example_tables) ''room-2'' =
           Inr [\<lparr>element_id = ''k'', timestamp = 8, content = ''note''\<rparr>]"
    by (simp add: getRoomElements_def example_tables_def)
  from clear_canvas_frame [OF h1 h2 h3 h4, of example_env] h1 h2 g
  show ?thesis by auto
qed

end
